theory Spec2Isabelle
  imports
    Complex_Main
    "HOL-Library.Multiset"
    "HOL-Library.Char_ord"
    "HOL-Library.List_Lexorder"
    "HOL-Library.Product_Lexorder"
begin

section \<open>Pantry ranking, snapshot, usage extraction and usage application\<close>

text \<open>
  The development embeds the core of \<^verbatim>\<open>app_recipes.py\<close> and the duplicated
  functions of \<^verbatim>\<open>gen_recipes_cli.py\<close>.

  Conventions of the embedding.
  \<^item> Python floats are idealised as \<open>real\<close>: the theorems speak about the formula the
    code evaluates, not about binary rounding.
  \<^item> A Python \<open>str\<close> is a \<open>string\<close> (a list of bytes, the UTF-8 text); the built-ins
    \<open>str.lower\<close> and \<open>str.strip\<close> are modelled on their ASCII behaviour.
  \<^item> Library calls whose result the repository does not compute itself are parameters
    of the functions that use them: \<open>strptime\<close> (\<open>datetime.strptime(s, "%Y-%m-%d")\<close>,
    \<open>None\<close> for \<open>ValueError\<close>), the clock (\<open>datetime.now()\<close>), \<open>json_loads\<close>
    (\<open>json.loads\<close>, \<open>None\<close> for any raised exception), the float renderers of the
    f-string, and the LLM call. Every theorem holds for every value of these parameters.
  \<^item> A dictionary with the columns of the \<open>ingredients\<close> table is a record; a column
    that may be \<open>NULL\<close> or a key that may be absent is an \<open>option\<close>.
\<close>

subsection \<open>Built-in string operations\<close>

definition is_space :: "char \<Rightarrow> bool" where
  "is_space c \<longleftrightarrow>
     c \<in> set [CHR 0x09, CHR 0x0A, CHR 0x0B, CHR 0x0C, CHR 0x0D,
              CHR 0x1C, CHR 0x1D, CHR 0x1E, CHR 0x1F, CHR 0x20]"

definition strip :: "string \<Rightarrow> string" where
  "strip s = rev (dropWhile is_space (rev (dropWhile is_space s)))"

text \<open>
  An upper-case ASCII letter (\<open>0x41\<close> to \<open>0x5A\<close>) becomes the letter \<open>0x20\<close> above it,
  that is, its bit 5 is set; every other byte is kept.
\<close>

definition lower_char :: "char \<Rightarrow> char" where
  "lower_char c =
     (if CHR ''A'' \<le> c \<and> c \<le> CHR ''Z''
      then (case c of Char b0 b1 b2 b3 b4 b5 b6 b7 \<Rightarrow> Char b0 b1 b2 b3 b4 True b6 b7)
      else c)"

definition lower :: "string \<Rightarrow> string" where
  "lower s = map lower_char s"

text \<open>\<^verbatim>\<open>x or d\<close> on an optional string: \<open>None\<close> and the empty string are falsy.\<close>

definition str_or :: "string option \<Rightarrow> string \<Rightarrow> string" where
  "str_or x d = (case x of None \<Rightarrow> d | Some s \<Rightarrow> if s = [] then d else s)"

subsection \<open>Data model\<close>

text \<open>
  A row of the \<open>ingredients\<close> table as \<^verbatim>\<open>list_ingredients\<close> returns it. \<open>name\<close> is
  \<open>NOT NULL\<close>; \<open>category\<close>, \<open>diet_type\<close> and \<open>expires_on\<close> are read with \<^verbatim>\<open>.get\<close>
  and may be absent or \<open>NULL\<close>. The timestamps the server maintains are not modelled.
\<close>

record ingredient =
  ing_id :: int
  name :: string
  qty :: real
  unit :: string
  category :: "string option"
  diet_type :: "string option"
  expires_on :: "string option"

text \<open>\<^verbatim>\<open>{**it, "_days_left": dleft, "_priority": prio}\<close>: the row and the two derived fields.\<close>

record ranked_ingredient =
  item :: ingredient
  days_left_f :: real
  priority :: real

subsection \<open>Ranking (\<^verbatim>\<open>app_recipes.py\<close>)\<close>

text \<open>
  \<open>strptime s\<close> is the parsed date as a number of days (midnight of that date) and
  \<open>now\<close> the reading of the clock in the same unit, so that their difference is
  \<^verbatim>\<open>(dt - datetime.now()).total_seconds() / 86400.0\<close>.
\<close>

definition days_left :: "(string \<Rightarrow> real option) \<Rightarrow> real \<Rightarrow> string option \<Rightarrow> real" where
  "days_left strptime now iso_date =
     (case iso_date of
        None \<Rightarrow> 9999
      | Some s \<Rightarrow>
          if s = [] then 9999
          else (case strptime s of None \<Rightarrow> 9999 | Some dt \<Rightarrow> dt - now))"

definition perishables :: "string list" where
  "perishables = [''dairy'', ''protein'', ''veg'', ''vegetable'', ''fruit'']"

text \<open>The body of the loop of \<^verbatim>\<open>rank_ingredients\<close>, one assignment per \<open>let\<close>.\<close>

definition rank_item ::
  "(string \<Rightarrow> real option) \<Rightarrow> real \<Rightarrow> ingredient \<Rightarrow> string \<Rightarrow> bool \<Rightarrow> bool \<Rightarrow> bool
     \<Rightarrow> ranked_ingredient" where
  "rank_item strptime now it selected_diet exclude_non_veg exclude_eggs exclude_dairy =
     (let dleft = days_left strptime now (expires_on it);
          prio0 = 1 / max dleft 0.25;
          cat = lower (str_or (category it) []);
          prio1 = (if cat \<in> set perishables then prio0 * 1.2 else prio0);
          it_diet = lower (str_or (diet_type it) ''unknown'');
          prio2 = (if exclude_non_veg \<and> it_diet = ''non-veg'' then prio1 * 0.15 else prio1);
          prio3 = (if exclude_eggs \<and> it_diet = ''eggs-ok'' then prio2 * 0.4 else prio2);
          prio4 = (if exclude_dairy \<and> cat = ''dairy'' then prio3 * 0.4 else prio3);
          prio5 = (if selected_diet = ''vegan'' \<and> cat = ''dairy'' then prio4 * 0.4 else prio4)
      in \<lparr>item = it, days_left_f = dleft, priority = prio5\<rparr>)"

text \<open>
  The loop appends one augmented row per input row. \<^verbatim>\<open>datetime.now()\<close> is read anew
  for each row: \<open>clock k\<close> is the reading taken for the row at position \<open>k\<close>.
\<close>

fun rank_loop ::
  "(string \<Rightarrow> real option) \<Rightarrow> (nat \<Rightarrow> real) \<Rightarrow> nat \<Rightarrow> ingredient list \<Rightarrow> string
     \<Rightarrow> bool \<Rightarrow> bool \<Rightarrow> bool \<Rightarrow> ranked_ingredient list \<Rightarrow> ranked_ingredient list" where
  "rank_loop strptime clock k [] sd nv eg da ranked = ranked"
| "rank_loop strptime clock k (it # items) sd nv eg da ranked =
     rank_loop strptime clock (Suc k) items sd nv eg da
       (ranked @ [rank_item strptime (clock k) it sd nv eg da])"

text \<open>
  \<^verbatim>\<open>ranked.sort(key=lambda x: (-x["_priority"], x["name"]))\<close>: a stable ascending
  sort on the pair, compared lexicographically; strings compare by code point, which is
  the bytewise order of their UTF-8 text.
\<close>

definition rank_ingredients ::
  "(string \<Rightarrow> real option) \<Rightarrow> (nat \<Rightarrow> real) \<Rightarrow> ingredient list \<Rightarrow> string
     \<Rightarrow> bool \<Rightarrow> bool \<Rightarrow> bool \<Rightarrow> ranked_ingredient list" where
  "rank_ingredients strptime clock items selected_diet exclude_non_veg exclude_eggs exclude_dairy =
     sort_key (\<lambda>x. (- priority x, name (item x)))
       (rank_loop strptime clock 0 items selected_diet exclude_non_veg exclude_eggs exclude_dairy [])"

subsection \<open>Ranking (\<^verbatim>\<open>gen_recipes_cli.py\<close>)\<close>

definition cli_days_left :: "(string \<Rightarrow> real option) \<Rightarrow> real \<Rightarrow> string option \<Rightarrow> real" where
  "cli_days_left strptime now iso_date =
     (case iso_date of
        None \<Rightarrow> 9999
      | Some s \<Rightarrow>
          if s = [] then 9999
          else (case strptime s of None \<Rightarrow> 9999 | Some dt \<Rightarrow> dt - now))"

definition cli_rank_item ::
  "(string \<Rightarrow> real option) \<Rightarrow> real \<Rightarrow> ingredient \<Rightarrow> ranked_ingredient" where
  "cli_rank_item strptime now it =
     (let dleft = cli_days_left strptime now (expires_on it);
          prio0 = 1 / max dleft 0.25;
          cat = lower (str_or (category it) []);
          prio1 = (if cat \<in> set [''dairy'', ''protein'', ''veg'', ''vegetable'', ''fruit'']
                   then prio0 * 1.2 else prio0)
      in \<lparr>item = it, days_left_f = dleft, priority = prio1\<rparr>)"

fun cli_rank_loop ::
  "(string \<Rightarrow> real option) \<Rightarrow> (nat \<Rightarrow> real) \<Rightarrow> nat \<Rightarrow> ingredient list
     \<Rightarrow> ranked_ingredient list \<Rightarrow> ranked_ingredient list" where
  "cli_rank_loop strptime clock k [] ranked = ranked"
| "cli_rank_loop strptime clock k (it # items) ranked =
     cli_rank_loop strptime clock (Suc k) items (ranked @ [cli_rank_item strptime (clock k) it])"

definition cli_rank_ingredients ::
  "(string \<Rightarrow> real option) \<Rightarrow> (nat \<Rightarrow> real) \<Rightarrow> ingredient list \<Rightarrow> ranked_ingredient list" where
  "cli_rank_ingredients strptime clock items =
     sort_key (\<lambda>x. (- priority x, name (item x))) (cli_rank_loop strptime clock 0 items [])"

subsection \<open>Snapshot formatter\<close>

text \<open>\<^verbatim>\<open>xs[:limit]\<close>: a negative \<open>limit\<close> counts from the end of the list.\<close>

definition slice_to :: "'a list \<Rightarrow> int \<Rightarrow> 'a list" where
  "slice_to xs limit =
     (if 0 \<le> limit then take (nat limit) xs else take (nat (int (length xs) + limit)) xs)"

text \<open>The decimal text of the loop index, as the f-string prints an \<open>int\<close>.\<close>

fun str_nat :: "nat \<Rightarrow> string" where
  "str_nat n =
     (if n < 10 then [''0123456789'' ! n]
      else str_nat (n div 10) @ [''0123456789'' ! (n mod 10)])"

declare str_nat.simps [simp del]

text \<open>\<^verbatim>\<open>sep.join(lines)\<close>.\<close>

fun join :: "string \<Rightarrow> string list \<Rightarrow> string" where
  "join sep [] = []"
| "join sep [l] = l"
| "join sep (l # ls) = l @ sep @ join sep ls"

text \<open>
  One line of the block. \<open>round_nd\<close> is the built-in \<^verbatim>\<open>round(x, n)\<close> and \<open>str_float\<close>
  the text an f-string gives a float.
\<close>

definition snapshot_line ::
  "(real \<Rightarrow> nat \<Rightarrow> real) \<Rightarrow> (real \<Rightarrow> string) \<Rightarrow> nat \<Rightarrow> ranked_ingredient \<Rightarrow> string" where
  "snapshot_line round_nd str_float i it =
     (let d = round_nd (days_left_f it) 1
      in str_nat i @ ''. '' @ name (item it) @ '' '' @ str_float (qty (item it)) @ unit (item it)
           @ '' | exp ~ '' @ str_float d @ ''d | prio='' @ str_float (round_nd (priority it) 2))"

fun snapshot_loop ::
  "(real \<Rightarrow> nat \<Rightarrow> real) \<Rightarrow> (real \<Rightarrow> string) \<Rightarrow> nat \<Rightarrow> ranked_ingredient list
     \<Rightarrow> string list \<Rightarrow> string list" where
  "snapshot_loop round_nd str_float i [] lines = lines"
| "snapshot_loop round_nd str_float i (it # its) lines =
     snapshot_loop round_nd str_float (Suc i) its (lines @ [snapshot_line round_nd str_float i it])"

definition snapshot_block ::
  "(real \<Rightarrow> nat \<Rightarrow> real) \<Rightarrow> (real \<Rightarrow> string) \<Rightarrow> ranked_ingredient list \<Rightarrow> int \<Rightarrow> string" where
  "snapshot_block round_nd str_float ranked limit =
     (let lines = snapshot_loop round_nd str_float 1 (slice_to ranked limit) []
      in if lines \<noteq> [] then join [CHR 0x0A] lines else ''(empty)'')"

text \<open>The copy in \<^verbatim>\<open>gen_recipes_cli.py\<close>.\<close>

fun build_ranked_loop ::
  "(real \<Rightarrow> nat \<Rightarrow> real) \<Rightarrow> (real \<Rightarrow> string) \<Rightarrow> nat \<Rightarrow> ranked_ingredient list
     \<Rightarrow> string list \<Rightarrow> string list" where
  "build_ranked_loop round_nd str_float i [] lines = lines"
| "build_ranked_loop round_nd str_float i (it # its) lines =
     build_ranked_loop round_nd str_float (Suc i) its
       (lines @ [(let d = round_nd (days_left_f it) 1
                  in str_nat i @ ''. '' @ name (item it) @ '' '' @ str_float (qty (item it))
                       @ unit (item it) @ '' | exp ~ '' @ str_float d @ ''d | prio=''
                       @ str_float (round_nd (priority it) 2))])"

definition build_ranked_block ::
  "(real \<Rightarrow> nat \<Rightarrow> real) \<Rightarrow> (real \<Rightarrow> string) \<Rightarrow> ranked_ingredient list \<Rightarrow> int \<Rightarrow> string" where
  "build_ranked_block round_nd str_float ranked limit =
     (let lines = build_ranked_loop round_nd str_float 1 (slice_to ranked limit) []
      in if lines \<noteq> [] then join [CHR 0x0A] lines else ''(empty)'')"

subsection \<open>Usage extractor\<close>

text \<open>
  \<^verbatim>\<open>_USAGE_BLOCK_RE\<close> is the tag \<^verbatim>\<open>```usage_json\<close> (matched ignoring case), \<^verbatim>\<open>\s*\<close>, a
  lazy group \<^verbatim>\<open>[\s\S]*?\<close>, \<^verbatim>\<open>\s*\<close> and a closing \<^verbatim>\<open>```\<close>. Anchored at a position, it
  matches when the tag is there and a fence follows; the lazy group then stops at the
  first fence, and the two \<^verbatim>\<open>\s*\<close> take the white space around the group.
\<close>

definition usage_tag :: string where
  "usage_tag = ''```usage_json''"

definition fence :: string where
  "fence = ''```''"

text \<open>The text before the first fence, when there is one.\<close>

fun find_fence :: "string \<Rightarrow> string option" where
  "find_fence [] = None"
| "find_fence (c # cs) =
     (if take 3 (c # cs) = fence then Some []
      else (case find_fence cs of None \<Rightarrow> None | Some body \<Rightarrow> Some (c # body)))"

definition match_usage_block :: "string \<Rightarrow> string option" where
  "match_usage_block s =
     (if lower (take 13 s) = usage_tag
      then (case find_fence (drop 13 s) of None \<Rightarrow> None | Some body \<Rightarrow> Some (strip body))
      else None)"

text \<open>\<^verbatim>\<open>_USAGE_BLOCK_RE.search\<close>: the leftmost position with a match; the value is the group.\<close>

fun re_search_usage :: "string \<Rightarrow> string option" where
  "re_search_usage [] = None"
| "re_search_usage (c # cs) =
     (case match_usage_block (c # cs) of Some g \<Rightarrow> Some g | None \<Rightarrow> re_search_usage cs)"

text \<open>A value of \<^verbatim>\<open>json.loads\<close>.\<close>

datatype json =
  JNull
| JBool bool
| JNum real
| JStr string
| JList "json list"
| JDict "(string \<times> json) list"

definition parse_usage_from_markdown :: "(string \<Rightarrow> json option) \<Rightarrow> string option \<Rightarrow> json" where
  "parse_usage_from_markdown json_loads md =
     (case re_search_usage (str_or md []) of
        None \<Rightarrow> JList []
      | Some g \<Rightarrow> (case json_loads (strip g) of None \<Rightarrow> JList [] | Some v \<Rightarrow> v))"

subsection \<open>Usage applicator\<close>













subsection \<open>Recipe generation and the history log\<close>










subsection \<open>Properties in the words of the specification\<close>

text \<open>
  The priority as the specification computes it from the days left: the base, the boost
  of the perishable classes, the penalties for non-veg and for eggs, and one penalty
  \<open>0.4\<close> when dairy is excluded or the vegan diet is selected and the category is dairy.
\<close>

definition claimed_priority :: "real \<Rightarrow> ingredient \<Rightarrow> string \<Rightarrow> bool \<Rightarrow> bool \<Rightarrow> bool \<Rightarrow> real" where
  "claimed_priority dleft it selected_diet exclude_non_veg exclude_eggs exclude_dairy =
     (1 / max dleft 0.25)
     * (if lower (str_or (category it) []) \<in> set perishables then 1.2 else 1)
     * (if exclude_non_veg \<and> lower (str_or (diet_type it) ''unknown'') = ''non-veg''
        then 0.15 else 1)
     * (if exclude_eggs \<and> lower (str_or (diet_type it) ''unknown'') = ''eggs-ok''
        then 0.4 else 1)
     * (if (exclude_dairy \<or> selected_diet = ''vegan'') \<and> lower (str_or (category it) []) = ''dairy''
        then 0.4 else 1)"

text \<open>
  The product of the boost and the penalties as the code applies them: the penalty for
  excluded dairy and the penalty for the vegan diet are two factors.
\<close>

definition multiplier :: "ingredient \<Rightarrow> string \<Rightarrow> bool \<Rightarrow> bool \<Rightarrow> bool \<Rightarrow> real" where
  "multiplier it selected_diet exclude_non_veg exclude_eggs exclude_dairy =
     (if lower (str_or (category it) []) \<in> set perishables then 1.2 else 1)
     * (if exclude_non_veg \<and> lower (str_or (diet_type it) ''unknown'') = ''non-veg''
        then 0.15 else 1)
     * (if exclude_eggs \<and> lower (str_or (diet_type it) ''unknown'') = ''eggs-ok''
        then 0.4 else 1)
     * (if exclude_dairy \<and> lower (str_or (category it) []) = ''dairy'' then 0.4 else 1)
     * (if selected_diet = ''vegan'' \<and> lower (str_or (category it) []) = ''dairy''
        then 0.4 else 1)"

text \<open>
  The snapshot as the specification words it: the placeholder for an empty list, and
  for any other list one line per item among the first \<open>limit\<close> items.
\<close>

definition claimed_snapshot ::
  "(real \<Rightarrow> nat \<Rightarrow> real) \<Rightarrow> (real \<Rightarrow> string) \<Rightarrow> ranked_ingredient list \<Rightarrow> int \<Rightarrow> string" where
  "claimed_snapshot round_nd str_float ranked limit =
     (if ranked = [] then ''(empty)''
      else join [CHR 0x0A]
             (map (\<lambda>(i, it). snapshot_line round_nd str_float i it)
                (enumerate 1 (take (nat limit) ranked))))"







text \<open>
  A text holds a usage block when the tag, in any case of its letters, is followed
  somewhere by a closing fence.
\<close>

definition has_usage_block :: "string \<Rightarrow> bool" where
  "has_usage_block s \<longleftrightarrow>
     (\<exists>pre t body post. s = pre @ t @ body @ fence @ post \<and> lower t = usage_tag)"

subsection \<open>Library functions and rows of the examples\<close>

text \<open>
  \<open>strptime_ymd\<close> reads the dates the store renders (\<^verbatim>\<open>DATE_FORMAT(expires_on, '%Y-%m-%d')\<close>:
  four, two and two digits) and gives the proleptic Gregorian ordinal of the day, as
  \<^verbatim>\<open>date.toordinal\<close> does; any other text is a \<open>ValueError\<close> here.
\<close>

definition is_digit :: "char \<Rightarrow> bool" where
  "is_digit c \<longleftrightarrow> CHR ''0'' \<le> c \<and> c \<le> CHR ''9''"

definition num_of :: "string \<Rightarrow> int option" where
  "num_of s =
     (if s \<noteq> [] \<and> list_all is_digit s
      then Some (foldl (\<lambda>a c. 10 * a + (int (of_char c) - 48)) 0 s) else None)"

definition is_leap :: "int \<Rightarrow> bool" where
  "is_leap y \<longleftrightarrow> y mod 4 = 0 \<and> (y mod 100 \<noteq> 0 \<or> y mod 400 = 0)"

definition days_in_month :: "int \<Rightarrow> int \<Rightarrow> int" where
  "days_in_month y m =
     (if m = 2 then (if is_leap y then 29 else 28)
      else if m \<in> set [4, 6, 9, 11] then 30 else 31)"

definition days_before_year :: "int \<Rightarrow> int" where
  "days_before_year y = (y - 1) * 365 + (y - 1) div 4 - (y - 1) div 100 + (y - 1) div 400"

definition days_before_month :: "int \<Rightarrow> int \<Rightarrow> int" where
  "days_before_month y m = sum_list (map (days_in_month y) [1..m - 1])"

definition to_ordinal :: "int \<Rightarrow> int \<Rightarrow> int \<Rightarrow> int" where
  "to_ordinal y m d = days_before_year y + days_before_month y m + d"

definition strptime_ymd :: "string \<Rightarrow> real option" where
  "strptime_ymd s =
     (if length s = 10 \<and> s ! 4 = CHR ''-'' \<and> s ! 7 = CHR ''-''
      then (case (num_of (take 4 s), num_of (take 2 (drop 5 s)), num_of (drop 8 s)) of
              (Some y, Some m, Some d) \<Rightarrow>
                if 1 \<le> y \<and> 1 \<le> m \<and> m \<le> 12 \<and> 1 \<le> d \<and> d \<le> days_in_month y m
                then Some (real_of_int (to_ordinal y m d)) else None
            | _ \<Rightarrow> None)
      else None)"

text \<open>A clock that reads \<open>t\<close> at every call.\<close>

definition clock_at :: "real \<Rightarrow> nat \<Rightarrow> real" where
  "clock_at t k = t"

text \<open>
  Rounding to \<open>n\<close> decimals with ties to the even neighbour, and the text of a number
  with at most two decimals, as Python prints such a float.
\<close>

definition round_half_even :: "real \<Rightarrow> int" where
  "round_half_even x =
     (let f = \<lfloor>x\<rfloor>; r = x - of_int f
      in if r < 1 / 2 then f else if 1 / 2 < r then f + 1 else if even f then f else f + 1)"

definition round_decimal :: "real \<Rightarrow> nat \<Rightarrow> real" where
  "round_decimal x n = of_int (round_half_even (x * 10 ^ n)) / 10 ^ n"

definition str_decimal :: "real \<Rightarrow> string" where
  "str_decimal x =
     (let k = nat \<lfloor>\<bar>x\<bar> * 100\<rfloor>; ip = k div 100; fp = k mod 100
      in (if x < 0 then ''-'' else []) @ str_nat ip @ ''.'' @
         (if fp mod 10 = 0 then str_nat (fp div 10)
          else str_nat (fp div 10) @ str_nat (fp mod 10)))"

text \<open>
  \<^verbatim>\<open>json.loads\<close> on the texts of the examples: three literals, the empty array and the
  empty object; the last branch is the \<open>ValueError\<close> of the malformed texts used below.
\<close>

definition json_loads_sample :: "string \<Rightarrow> json option" where
  "json_loads_sample s =
     (if s = ''null'' then Some JNull
      else if s = ''true'' then Some (JBool True)
      else if s = ''false'' then Some (JBool False)
      else if s = ''[]'' then Some (JList [])
      else if s = ''{}'' then Some (JDict [])
      else None)"






text \<open>
  The rows of the end-to-end scenario and three more. The clock of the examples reads
  the first of January 2024, ordinal \<open>738886\<close>, at midnight or at noon.
\<close>

definition tomato :: ingredient where
  "tomato = \<lparr>ing_id = 1, name = ''tomato'', qty = 6, unit = ''pcs'', category = Some ''veg'',
             diet_type = Some ''veg'', expires_on = Some ''2024-01-02''\<rparr>"

definition rice :: ingredient where
  "rice = \<lparr>ing_id = 2, name = ''rice'', qty = 2, unit = ''kg'', category = Some ''grain'',
           diet_type = Some ''veg'', expires_on = Some ''2024-06-29''\<rparr>"

definition milk :: ingredient where
  "milk = \<lparr>ing_id = 3, name = ''milk'', qty = 1, unit = ''L'', category = Some ''dairy'',
           diet_type = Some ''veg'', expires_on = Some ''2024-01-01''\<rparr>"

definition bread :: ingredient where
  "bread = \<lparr>ing_id = 4, name = ''bread'', qty = 6, unit = ''slices'', category = Some ''grain'',
            diet_type = Some ''veg'', expires_on = Some ''2023-12-31''\<rparr>"

definition chicken :: ingredient where
  "chicken = \<lparr>ing_id = 5, name = ''chicken'', qty = 750, unit = ''g'', category = Some ''protein'',
              diet_type = Some ''non-veg'', expires_on = Some ''2023-12-30''\<rparr>"







lemmas strptime_ymd_eval =
  is_digit_def num_of_def is_leap_def days_in_month_def days_before_year_def
  days_before_month_def to_ordinal_def strptime_ymd_def clock_at_def

lemmas text_defs =
  is_space_def strip_def lower_char_def lower_def str_or_def

section \<open>Ranking\<close>

subsection \<open>The loop and one row\<close>

lemma rank_loop_eq:
  "rank_loop P C k items sd nv eg da acc =
     acc @ map (\<lambda>(i, it). rank_item P (C i) it sd nv eg da) (enumerate k items)"
  by (induction items arbitrary: k acc) simp_all

lemma item_rank_item: "item (rank_item P now it sd nv eg da) = it"
  by (simp add: rank_item_def Let_def)

lemma days_left_rank_item:
  "days_left_f (rank_item P now it sd nv eg da) = days_left P now (expires_on it)"
  by (simp add: rank_item_def Let_def)

lemma priority_rank_item:
  "priority (rank_item P now it sd nv eg da) =
     (1 / max (days_left P now (expires_on it)) 0.25) * multiplier it sd nv eg da"
  by (auto simp add: rank_item_def multiplier_def Let_def)

lemma rank_item_eq:
  "rank_item P now it sd nv eg da =
     \<lparr>item = it, days_left_f = days_left P now (expires_on it),
      priority = (1 / max (days_left P now (expires_on it)) 0.25) * multiplier it sd nv eg da\<rparr>"
  using item_rank_item[of P now it sd nv eg da] days_left_rank_item[of P now it sd nv eg da]
    priority_rank_item[of P now it sd nv eg da]
  by (cases "rank_item P now it sd nv eg da") simp

lemma mset_rank_ingredients:
  "mset (rank_ingredients P C items sd nv eg da) =
     mset (map (\<lambda>(k, it). rank_item P (C k) it sd nv eg da) (enumerate 0 items))"
  by (simp add: rank_ingredients_def rank_loop_eq)

lemma map_item_rank_loop:
  "map item (rank_loop P C k items sd nv eg da []) = items"
  by (simp add: rank_loop_eq item_rank_item comp_def case_prod_beta)

lemma in_rank_ingredients:
  assumes "r \<in> set (rank_ingredients P C items sd nv eg da)"
  shows "priority r = (1 / max (days_left_f r) 0.25) * multiplier (item r) sd nv eg da"
proof -
  from assms have "r \<in># mset (rank_ingredients P C items sd nv eg da)"
    by simp
  then have "r \<in> set (map (\<lambda>(k, it). rank_item P (C k) it sd nv eg da) (enumerate 0 items))"
    by (simp only: mset_rank_ingredients set_mset_mset)
  then obtain k it where "r = rank_item P (C k) it sd nv eg da"
    by auto
  then show ?thesis
    by (simp add: rank_item_eq)
qed

lemmas rank_eval =
  rank_ingredients_def rank_item_def days_left_def perishables_def Let_def upto.simps

subsection \<open>The priority of a row\<close>

text \<open>
  Claim C1, as amended. The ranked list holds, for the row at each position \<open>k\<close> of the
  input, that row with its days left and its priority: the days left are the difference
  between the parsed expiry date and the clock reading \<open>C k\<close>, and \<open>9999\<close> when no
  expiry is set, when it is the empty string or when the text does not parse; the
  priority is \<open>1 / max(days_left, 0.25)\<close> times the multiplier: \<open>1.2\<close> for a perishable
  category (lower-cased), \<open>0.15\<close> when non-veg is excluded and the lower-cased diet tag is
  \<open>non-veg\<close>, \<open>0.4\<close> when eggs are excluded and the tag is \<open>eggs-ok\<close>, \<open>0.4\<close> when dairy is
  excluded and the category is dairy, and a further \<open>0.4\<close> when the selected diet is
  \<open>vegan\<close> and the category is dairy. The two dairy penalties are separate factors.
\<close>

theorem rank_ingredients_priority:
  "mset (rank_ingredients P C items sd nv eg da) =
     mset (map (\<lambda>(k, it).
                 \<lparr>item = it, days_left_f = days_left P (C k) (expires_on it),
                  priority = (1 / max (days_left P (C k) (expires_on it)) 0.25)
                             * multiplier it sd nv eg da\<rparr>)
             (enumerate 0 items)) \<and>
   days_left P now None = 9999 \<and>
   days_left P now (Some []) = 9999 \<and>
   (P s = None \<longrightarrow> days_left P now (Some s) = 9999) \<and>
   (s \<noteq> [] \<longrightarrow> P s = Some dt \<longrightarrow> days_left P now (Some s) = dt - now)"
  by (simp add: mset_rank_ingredients rank_item_eq days_left_def)

theorem rank_ingredients_priority_witness:
  "mset (rank_ingredients strptime_ymd (clock_at 738886) [rice, tomato] ''veg'' True False False) =
     {#\<lparr>item = rice, days_left_f = 180, priority = 1 / 180\<rparr>,
       \<lparr>item = tomato, days_left_f = 1, priority = 1.2\<rparr>#} \<and>
   strptime_ymd ''soon'' = None \<and> days_left strptime_ymd 738886 (Some ''soon'') = 9999 \<and>
   ''2024-01-02'' \<noteq> [] \<and> strptime_ymd ''2024-01-02'' = Some 738887 \<and>
   days_left strptime_ymd 738886 (Some ''2024-01-02'') = 738887 - 738886"
  using rank_ingredients_priority[of strptime_ymd "clock_at 738886" "[rice, tomato]" "''veg''"
      True False False 738886 "''soon''" 738887]
    rank_ingredients_priority[of strptime_ymd "clock_at 738886" "[rice, tomato]" "''veg''"
      True False False 738886 "''2024-01-02''" 738887]
  by (simp add: rice_def tomato_def multiplier_def strptime_ymd_eval text_defs rank_eval
      enumerate_eq_zip)

text \<open>
  The claim as written gives one penalty \<open>0.4\<close> to a dairy row when dairy is excluded or
  the diet is vegan. With both, the code multiplies by \<open>0.4\<close> twice: milk that expires in
  two days gets \<open>0.5 * 1.2 * 0.4 * 0.4 = 0.096\<close>, not \<open>0.24\<close>.
\<close>

theorem double_dairy_penalty_counterexample:
  "map priority (rank_ingredients strptime_ymd (clock_at 738884) [milk] ''vegan'' True True True)
     = [0.096] \<and>
   claimed_priority (days_left strptime_ymd 738884 (expires_on milk)) milk ''vegan'' True True True
     = 0.24"
  by (simp add: milk_def claimed_priority_def strptime_ymd_eval text_defs rank_eval)

subsection \<open>Order of the ranked list\<close>

lemma sorted_key_imp:
  assumes "sorted (map (\<lambda>x. (- priority x, name (item x))) xs)"
  shows "sorted_wrt (\<lambda>a b. priority b < priority a \<or>
                      (priority a = priority b \<and> name (item a) \<le> name (item b))) xs"
proof -
  from assms
  have "sorted_wrt (\<lambda>a b. (- priority a, name (item a)) \<le> (- priority b, name (item b))) xs"
    by (simp add: sorted_map)
  then show ?thesis
    by (rule sorted_wrt_mono_rel[rotated]) (auto simp: less_eq_prod_def)
qed

text \<open>
  Claim C3. The ranked list is a permutation of the augmented rows, one per input row
  and with the input row unchanged inside it, so the rows of the output are the rows of
  the input, each exactly once, whatever the flags; it is sorted by descending priority
  and, among equal priorities, by ascending name; rows that agree on both keep their
  input order; and a date that does not parse gives the sentinel instead of an error.
\<close>

theorem rank_ingredients_perm_sorted:
  "mset (rank_ingredients P C items sd nv eg da) =
     mset (map (\<lambda>(k, it). rank_item P (C k) it sd nv eg da) (enumerate 0 items)) \<and>
   item (rank_item P now it sd nv eg da) = it \<and>
   mset (map item (rank_ingredients P C items sd nv eg da)) = mset items \<and>
   length (rank_ingredients P C items sd nv eg da) = length items \<and>
   sorted_wrt (\<lambda>a b. priority b < priority a \<or>
                      (priority a = priority b \<and> name (item a) \<le> name (item b)))
     (rank_ingredients P C items sd nv eg da) \<and>
   filter (\<lambda>x. (- priority x, name (item x)) = key) (rank_ingredients P C items sd nv eg da) =
     filter (\<lambda>x. (- priority x, name (item x)) = key)
       (map (\<lambda>(k, it). rank_item P (C k) it sd nv eg da) (enumerate 0 items)) \<and>
   (P s = None \<longrightarrow> days_left P now (Some s) = 9999)"
proof -
  let ?out = "rank_ingredients P C items sd nv eg da"
  have perm: "mset ?out = mset (rank_loop P C 0 items sd nv eg da [])"
    by (simp add: rank_ingredients_def)
  have "mset (map item ?out) = mset (map item (rank_loop P C 0 items sd nv eg da []))"
    using perm by (metis mset_map)
  then have items: "mset (map item ?out) = mset items"
    by (simp only: map_item_rank_loop)
  have len: "length ?out = length items"
    by (simp add: rank_ingredients_def rank_loop_eq)
  have "sorted (map (\<lambda>x. (- priority x, name (item x))) ?out)"
    by (simp add: rank_ingredients_def)
  then have sorted: "sorted_wrt (\<lambda>a b. priority b < priority a \<or>
      (priority a = priority b \<and> name (item a) \<le> name (item b))) ?out"
    by (rule sorted_key_imp)
  have stable: "filter (\<lambda>x. (- priority x, name (item x)) = key) ?out =
     filter (\<lambda>x. (- priority x, name (item x)) = key)
       (map (\<lambda>(k, it). rank_item P (C k) it sd nv eg da) (enumerate 0 items))"
    by (simp add: rank_ingredients_def rank_loop_eq sort_key_stable)
  have parse: "P s = None \<longrightarrow> days_left P now (Some s) = 9999"
    by (simp add: days_left_def)
  show ?thesis
    using perm items len sorted stable parse by (simp add: rank_loop_eq item_rank_item)
qed

theorem rank_ingredients_perm_sorted_witness:
  "strptime_ymd ''2024-02-30'' = None \<and>
   days_left strptime_ymd 738886 (Some ''2024-02-30'') = 9999 \<and>
   map (name \<circ> item)
     (rank_ingredients strptime_ymd (clock_at 738886)
        [rice, tomato, tomato\<lparr>name := ''potato''\<rparr>] ''veg'' True False False)
     = [''potato'', ''tomato'', ''rice'']"
  using rank_ingredients_perm_sorted[of strptime_ymd "clock_at 738886"
      "[rice, tomato, tomato\<lparr>name := ''potato''\<rparr>]" "''veg''" True False False 738886 rice
      "(0, [])" "''2024-02-30''"]
  by (simp add: rice_def tomato_def strptime_ymd_eval text_defs rank_eval)

subsection \<open>Rows that have expired\<close>

lemma multiplier_nonneg: "0 \<le> multiplier it sd nv eg da"
  by (simp add: multiplier_def)

lemma base_le_4: "1 / max (d::real) 0.25 \<le> 4"
proof -
  have "(0.25::real) \<le> max d 0.25" by simp
  then have "1 / max d 0.25 \<le> 1 / (0.25::real)"
    by (intro divide_left_mono) (auto simp: max_def)
  then show ?thesis by simp
qed

lemma base_expired: "(d::real) \<le> 0 \<Longrightarrow> 1 / max d 0.25 = 4"
  by (simp add: max_def)

text \<open>
  Claim C8, as amended. A row whose expiry date is the current date or earlier has
  days left at most \<open>0\<close>, so its base priority is \<open>1 / 0.25 = 4\<close> and its priority is \<open>4\<close>
  times its multiplier; no row of the ranked list has a priority above \<open>4\<close> times its own
  multiplier. Hence such a row has the same priority as any other expired row with the
  same multiplier, and no row with the same multiplier is ranked with a greater priority.
\<close>

theorem expired_items_base_priority:
  assumes "r \<in> set (rank_ingredients P C items sd nv eg da)"
    and "r' \<in> set (rank_ingredients P C items sd nv eg da)"
  shows "priority r' \<le> 4 * multiplier (item r') sd nv eg da \<and>
     (days_left_f r \<le> 0 \<longrightarrow> priority r = 4 * multiplier (item r) sd nv eg da) \<and>
     (days_left_f r \<le> 0 \<longrightarrow>
        multiplier (item r') sd nv eg da = multiplier (item r) sd nv eg da \<longrightarrow>
        priority r' \<le> priority r) \<and>
     (s \<noteq> [] \<longrightarrow> P s = Some dt \<longrightarrow> dt \<le> now \<longrightarrow> days_left P now (Some s) \<le> 0)"
proof -
  have "(1 / max (days_left_f r') 0.25) * multiplier (item r') sd nv eg da
          \<le> 4 * multiplier (item r') sd nv eg da"
    by (intro mult_right_mono base_le_4 multiplier_nonneg)
  then have le: "priority r' \<le> 4 * multiplier (item r') sd nv eg da"
    by (simp only: in_rank_ingredients[OF assms(2)])
  have eq: "days_left_f r \<le> 0 \<longrightarrow> priority r = 4 * multiplier (item r) sd nv eg da"
    using in_rank_ingredients[OF assms(1)] by (simp add: base_expired)
  have "s \<noteq> [] \<longrightarrow> P s = Some dt \<longrightarrow> dt \<le> now \<longrightarrow> days_left P now (Some s) \<le> 0"
    by (simp add: days_left_def)
  with le eq show ?thesis by simp
qed

theorem expired_items_base_priority_witness:
  "\<lparr>item = milk, days_left_f = - (1 / 2), priority = 4.8\<rparr>
     \<in> set (rank_ingredients strptime_ymd (clock_at 738886.5) [milk, bread, chicken, tomato]
              ''veg'' True False False) \<and>
   \<lparr>item = tomato, days_left_f = 1 / 2, priority = 2.4\<rparr>
     \<in> set (rank_ingredients strptime_ymd (clock_at 738886.5) [milk, bread, chicken, tomato]
              ''veg'' True False False) \<and>
   multiplier tomato ''veg'' True False False = multiplier milk ''veg'' True False False \<and>
   (2.4::real) \<le> 4.8 \<and> (4.8::real) = 4 * multiplier milk ''veg'' True False False \<and>
   ''2024-01-01'' \<noteq> [] \<and> strptime_ymd ''2024-01-01'' = Some 738886 \<and>
   days_left strptime_ymd 738886.5 (Some ''2024-01-01'') \<le> 0"
  using expired_items_base_priority[of
      "\<lparr>item = milk, days_left_f = - (1 / 2), priority = 4.8\<rparr>" strptime_ymd "clock_at 738886.5"
      "[milk, bread, chicken, tomato]" "''veg''" True False False
      "\<lparr>item = tomato, days_left_f = 1 / 2, priority = 2.4\<rparr>" "''2024-01-01''" 738886 "738886.5"]
  by (simp add: milk_def bread_def chicken_def tomato_def multiplier_def strptime_ymd_eval
      text_defs rank_eval)

text \<open>
  The claim as written fails at noon of the first of January 2024 with non-veg excluded:
  milk (expires that day, dairy) and bread (expired the day before, grain) get \<open>4.8\<close> and
  \<open>4\<close>, and chicken (expired, non-veg) gets \<open>0.72\<close>, below the \<open>2.4\<close> of the tomato that
  expires the next day.
\<close>

theorem expired_priorities_differ_counterexample:
  "map (\<lambda>r. (name (item r), days_left_f r, priority r))
     (rank_ingredients strptime_ymd (clock_at 738886.5) [milk, bread, chicken, tomato]
        ''veg'' True False False)
   = [(''milk'', - 0.5, 4.8), (''bread'', - 1.5, 4), (''tomato'', 0.5, 2.4),
      (''chicken'', - 2.5, 0.72)]"
  by (simp add: milk_def bread_def chicken_def tomato_def strptime_ymd_eval text_defs rank_eval)

subsection \<open>The copies of the command-line tool\<close>

lemma cli_rank_loop_eq:
  "cli_rank_loop P C k items acc =
     acc @ map (\<lambda>(i, it). cli_rank_item P (C i) it) (enumerate k items)"
  by (induction items arbitrary: k acc) simp_all

lemma cli_days_left_eq: "cli_days_left P now d = days_left P now d"
  by (simp add: cli_days_left_def days_left_def)

lemma cli_rank_item_eq:
  "sd \<noteq> ''vegan'' \<Longrightarrow> cli_rank_item P now it = rank_item P now it sd False False False"
  by (simp add: cli_rank_item_def rank_item_def cli_days_left_eq perishables_def Let_def)

lemma build_ranked_loop_eq:
  "build_ranked_loop R F i its acc = snapshot_loop R F i its acc"
  by (induction its arbitrary: i acc) (simp_all add: snapshot_line_def)

text \<open>
  Claim C9. \<^verbatim>\<open>build_ranked_block\<close> of the command-line tool returns the string of
  \<^verbatim>\<open>snapshot_block\<close> for every ranked list and limit, and its \<^verbatim>\<open>rank_ingredients\<close>
  returns the list of the application's \<^verbatim>\<open>rank_ingredients\<close> called with the three
  exclusion flags off and a selected diet other than \<open>vegan\<close>, for every input list (and
  the same parser and clock).
\<close>

theorem cli_matches_app:
  "build_ranked_block R F ranked limit = snapshot_block R F ranked limit \<and>
   (sd \<noteq> ''vegan'' \<longrightarrow>
      cli_rank_ingredients P C items = rank_ingredients P C items sd False False False)"
  by (simp add: build_ranked_block_def snapshot_block_def build_ranked_loop_eq
      cli_rank_ingredients_def rank_ingredients_def cli_rank_loop_eq rank_loop_eq
      cli_rank_item_eq)

theorem cli_matches_app_witness:
  "''veg'' \<noteq> ''vegan'' \<and>
   cli_rank_ingredients strptime_ymd (clock_at 738886) [rice, tomato] =
     rank_ingredients strptime_ymd (clock_at 738886) [rice, tomato] ''veg'' False False False \<and>
   map (name \<circ> item) (cli_rank_ingredients strptime_ymd (clock_at 738886) [rice, tomato])
     = [''tomato'', ''rice'']"
  using cli_matches_app[of round_decimal str_decimal "[]" 14 "''veg''" strptime_ymd
      "clock_at 738886" "[rice, tomato]"]
  by (simp add: rice_def tomato_def strptime_ymd_eval text_defs rank_eval)

section \<open>Snapshot formatter\<close>

lemma snapshot_loop_eq:
  "snapshot_loop R F i its acc =
     acc @ map (\<lambda>(k, it). snapshot_line R F k it) (enumerate i its)"
  by (induction its arbitrary: i acc) simp_all

lemma enumerate_Nil_iff: "enumerate n xs = [] \<longleftrightarrow> xs = []"
  by (cases xs) simp_all

lemma slice_to_nonneg: "0 \<le> limit \<Longrightarrow> slice_to xs limit = take (nat limit) xs"
  by (simp add: slice_to_def)

lemma slice_to_neg: "limit < 0 \<Longrightarrow> slice_to xs limit = take (length xs - nat (- limit)) xs"
proof -
  assume "limit < 0"
  then have "nat (int (length xs) + limit) = length xs - nat (- limit)"
    by linarith
  with \<open>limit < 0\<close> show ?thesis
    by (simp add: slice_to_def)
qed

lemmas snap_eval =
  snapshot_block_def snapshot_line_def slice_to_def str_nat.simps

text \<open>
  Claim C4, as amended. The block is a function of the ranked list and the limit alone
  (it reads neither the clock nor the store). It is the placeholder \<open>(empty)\<close> whenever
  the slice \<^verbatim>\<open>ranked[:limit]\<close> is empty: for an empty list, for the limit \<open>0\<close>, and for a
  negative limit that reaches the start of the list. Otherwise it is the lines of the
  slice joined by newlines, one line per item, numbered from \<open>1\<close>, each made of the index,
  the name, the quantity followed by the unit, the days left rounded to one decimal and
  the priority rounded to two. The slice is the first \<open>limit\<close> items for a limit of at
  least \<open>0\<close> and the list without its last \<open>-limit\<close> items for a negative one; so for a
  positive limit and a list that is not empty the block is as the specification words
  it, with \<open>min limit (length ranked)\<close> lines.
\<close>

theorem snapshot_block_lines:
  "snapshot_block R F ranked limit =
     (if slice_to ranked limit = [] then ''(empty)''
      else join [CHR 0x0A]
             (map (\<lambda>(i, it).
                     str_nat i @ ''. '' @ name (item it) @ '' '' @ F (qty (item it))
                       @ unit (item it) @ '' | exp ~ '' @ F (R (days_left_f it) 1)
                       @ ''d | prio='' @ F (R (priority it) 2))
                (enumerate 1 (slice_to ranked limit)))) \<and>
   slice_to ranked limit =
     (if 0 \<le> limit then take (nat limit) ranked
      else take (length ranked - nat (- limit)) ranked) \<and>
   snapshot_block R F [] limit = ''(empty)'' \<and>
   (0 < limit \<longrightarrow> ranked \<noteq> [] \<longrightarrow>
      snapshot_block R F ranked limit = claimed_snapshot R F ranked limit \<and>
      length (enumerate 1 (slice_to ranked limit)) = min (nat limit) (length ranked))"
proof -
  have block: "snapshot_block R F ranked limit =
     (if slice_to ranked limit = [] then ''(empty)''
      else join [CHR 0x0A]
             (map (\<lambda>(i, it). snapshot_line R F i it) (enumerate 1 (slice_to ranked limit))))"
    by (simp add: snapshot_block_def snapshot_loop_eq enumerate_Nil_iff)
  have line: "snapshot_line R F = (\<lambda>i it.
      str_nat i @ ''. '' @ name (item it) @ '' '' @ F (qty (item it))
        @ unit (item it) @ '' | exp ~ '' @ F (R (days_left_f it) 1)
        @ ''d | prio='' @ F (R (priority it) 2))"
    by (intro ext) (simp only: snapshot_line_def Let_def)
  have slice: "slice_to ranked limit =
     (if 0 \<le> limit then take (nat limit) ranked
      else take (length ranked - nat (- limit)) ranked)"
    by (simp add: slice_to_nonneg slice_to_neg)
  have empty: "snapshot_block R F [] limit = ''(empty)''"
    by (simp add: snapshot_block_def slice_to_def)
  have pos: "0 < limit \<longrightarrow> ranked \<noteq> [] \<longrightarrow>
      snapshot_block R F ranked limit = claimed_snapshot R F ranked limit \<and>
      length (enumerate 1 (slice_to ranked limit)) = min (nat limit) (length ranked)"
    by (simp add: block claimed_snapshot_def slice_to_nonneg min.commute)
  show ?thesis
    using block[unfolded line] slice empty pos by blast
qed

theorem snapshot_block_lines_witness:
  "(0::int) < 14 \<and>
   rank_ingredients strptime_ymd (clock_at 738886) [rice, tomato] ''none'' False False False \<noteq> [] \<and>
   snapshot_block round_decimal str_decimal
     (rank_ingredients strptime_ymd (clock_at 738886) [rice, tomato] ''none'' False False False) 14 =
     ''1. tomato 6.0pcs | exp ~ 1.0d | prio=1.2'' @ [CHR 0x0A] @
     ''2. rice 2.0kg | exp ~ 180.0d | prio=0.01'' \<and>
   claimed_snapshot round_decimal str_decimal
     (rank_ingredients strptime_ymd (clock_at 738886) [rice, tomato] ''none'' False False False) 14 =
     ''1. tomato 6.0pcs | exp ~ 1.0d | prio=1.2'' @ [CHR 0x0A] @
     ''2. rice 2.0kg | exp ~ 180.0d | prio=0.01''"
  using snapshot_block_lines[of round_decimal str_decimal
      "rank_ingredients strptime_ymd (clock_at 738886) [rice, tomato] ''none'' False False False" 14]
  by (simp add: rice_def tomato_def round_half_even_def round_decimal_def str_decimal_def
      claimed_snapshot_def strptime_ymd_eval text_defs rank_eval snap_eval enumerate_eq_zip)

text \<open>
  The claim as written gives a list that is not empty one line per item among the first
  \<open>limit\<close> items: no line at all for the limit \<open>0\<close>. The code returns the placeholder.
\<close>

theorem snapshot_limit_zero_counterexample:
  "snapshot_block round_decimal str_decimal
     [\<lparr>item = tomato, days_left_f = 1, priority = 1.2\<rparr>] 0 = ''(empty)'' \<and>
   claimed_snapshot round_decimal str_decimal
     [\<lparr>item = tomato, days_left_f = 1, priority = 1.2\<rparr>] 0 = []"
  by (simp add: claimed_snapshot_def snap_eval)

section \<open>Usage extractor\<close>

lemma find_fence_Some:
  "find_fence s = Some body \<Longrightarrow> \<exists>post. s = body @ fence @ post"
proof (induction s arbitrary: body)
  case Nil
  then show ?case by simp
next
  case (Cons c cs)
  show ?case
  proof (cases "take 3 (c # cs) = fence")
    case True
    with Cons.prems have "body = []" by simp
    moreover have "c # cs = take 3 (c # cs) @ drop 3 (c # cs)"
      by (simp only: append_take_drop_id)
    ultimately show ?thesis using True by (metis append_Nil)
  next
    case False
    with Cons.prems obtain b where b: "find_fence cs = Some b" "body = c # b"
      by (auto split: option.splits)
    from Cons.IH[OF b(1)] obtain post where "cs = b @ fence @ post" ..
    with b(2) show ?thesis by auto
  qed
qed

lemma find_fence_None:
  "find_fence s = None \<Longrightarrow> s \<noteq> body @ fence @ post"
proof (induction s arbitrary: body)
  case Nil
  then show ?case by (simp add: fence_def)
next
  case (Cons c cs)
  from Cons.prems have nf: "take 3 (c # cs) \<noteq> fence" and rec: "find_fence cs = None"
    by (auto split: if_splits option.splits)
  show ?case
  proof
    assume eq: "c # cs = body @ fence @ post"
    show False
    proof (cases body)
      case Nil
      with eq have "take 3 (c # cs) = fence" by (simp add: fence_def)
      with nf show False by contradiction
    next
      case (Cons b bs)
      with eq have "cs = bs @ fence @ post" by simp
      with Cons.IH[OF rec, of bs] show False by contradiction
    qed
  qed
qed

lemma lower_tag_length: "lower t = usage_tag \<Longrightarrow> length t = 13"
proof -
  assume "lower t = usage_tag"
  then have "length (lower t) = length usage_tag" by simp
  then show ?thesis by (simp add: lower_def usage_tag_def)
qed

lemma match_usage_block_Some:
  assumes "match_usage_block s = Some g"
  shows "\<exists>t body post. s = t @ body @ fence @ post \<and> lower t = usage_tag \<and> g = strip body"
proof -
  from assms have tag: "lower (take 13 s) = usage_tag"
    by (auto simp: match_usage_block_def split: if_splits)
  with assms obtain body where body: "find_fence (drop 13 s) = Some body" "g = strip body"
    by (auto simp: match_usage_block_def split: option.splits)
  from find_fence_Some[OF body(1)] obtain post where "drop 13 s = body @ fence @ post" ..
  then have "s = take 13 s @ body @ fence @ post"
    by (metis append_take_drop_id)
  with tag body(2) show ?thesis by blast
qed

lemma match_usage_block_None:
  assumes "match_usage_block s = None" and "lower t = usage_tag"
  shows "s \<noteq> t @ body @ fence @ post"
proof
  assume eq: "s = t @ body @ fence @ post"
  from assms(2) have len: "length t = 13" by (rule lower_tag_length)
  with eq have "take 13 s = t" "drop 13 s = body @ fence @ post" by simp_all
  with assms have "find_fence (body @ fence @ post) = None"
    by (auto simp: match_usage_block_def split: option.splits)
  from find_fence_None[OF this] show False by blast
qed

lemma re_search_usage_Some:
  "re_search_usage s = Some g \<Longrightarrow>
     \<exists>pre t body post. s = pre @ t @ body @ fence @ post \<and> lower t = usage_tag \<and> g = strip body"
proof (induction s)
  case Nil
  then show ?case by simp
next
  case (Cons c cs)
  show ?case
  proof (cases "match_usage_block (c # cs)")
    case (Some g')
    with Cons.prems have "g' = g" by simp
    with match_usage_block_Some[OF Some] show ?thesis
      by (metis append_Nil)
  next
    case None
    with Cons.prems have "re_search_usage cs = Some g" by simp
    from Cons.IH[OF this] obtain pre t body post
      where "cs = pre @ t @ body @ fence @ post" "lower t = usage_tag" "g = strip body"
      by blast
    then have "c # cs = (c # pre) @ t @ body @ fence @ post \<and> lower t = usage_tag \<and> g = strip body"
      by simp
    then show ?thesis by blast
  qed
qed

lemma re_search_usage_None:
  "re_search_usage s = None \<Longrightarrow> lower t = usage_tag \<Longrightarrow> s \<noteq> pre @ t @ body @ fence @ post"
proof (induction s arbitrary: pre)
  case Nil
  then show ?case by (simp add: fence_def)
next
  case (Cons c cs)
  from Cons.prems(1) have m: "match_usage_block (c # cs) = None" and r: "re_search_usage cs = None"
    by (auto split: option.splits)
  show ?case
  proof
    assume eq: "c # cs = pre @ t @ body @ fence @ post"
    show False
    proof (cases pre)
      case Nil
      with eq match_usage_block_None[OF m Cons.prems(2), of body post] show False by simp
    next
      case (Cons p ps)
      with eq have "cs = ps @ t @ body @ fence @ post" by simp
      with Cons.IH[OF r Cons.prems(2), of ps] show False by contradiction
    qed
  qed
qed

lemma re_search_usage_None_iff:
  "re_search_usage s = None \<longleftrightarrow> \<not> has_usage_block s"
proof
  assume "re_search_usage s = None"
  then show "\<not> has_usage_block s"
    unfolding has_usage_block_def using re_search_usage_None by blast
next
  assume no: "\<not> has_usage_block s"
  show "re_search_usage s = None"
  proof (cases "re_search_usage s")
    case None
    then show ?thesis .
  next
    case (Some g)
    from re_search_usage_Some[OF Some] have "has_usage_block s"
      unfolding has_usage_block_def by blast
    with no show ?thesis by contradiction
  qed
qed

lemma has_usage_block_iff: "has_usage_block s \<longleftrightarrow> re_search_usage s \<noteq> None"
  by (simp add: re_search_usage_None_iff)

lemmas usage_eval =
  parse_usage_from_markdown_def match_usage_block_def usage_tag_def fence_def

text \<open>
  Claim C5. \<^verbatim>\<open>parse_usage_from_markdown\<close> has a value for every input, \<open>None\<close> and the
  empty text included: the search cannot fail and the exception of \<^verbatim>\<open>json.loads\<close> is
  the branch \<open>None\<close> of the parser. The value is the empty list whenever the text holds
  no fenced block tagged \<open>usage_json\<close> (the tag in any case of its letters), and whenever
  the contents of the block that the search finds, a tagged block of the text with the
  white space around its body removed, do not parse as JSON.
\<close>

theorem parse_usage_soft_fail:
  "(\<not> has_usage_block (str_or md []) \<longrightarrow> parse_usage_from_markdown J md = JList []) \<and>
   (re_search_usage (str_or md []) = Some g \<longrightarrow> J (strip g) = None \<longrightarrow>
      parse_usage_from_markdown J md = JList []) \<and>
   (has_usage_block (str_or md []) \<longrightarrow>
      (\<exists>pre t body post.
         str_or md [] = pre @ t @ body @ fence @ post \<and> lower t = usage_tag \<and>
         re_search_usage (str_or md []) = Some (strip body))) \<and>
   parse_usage_from_markdown J None = JList [] \<and>
   parse_usage_from_markdown J (Some []) = JList []"
proof -
  have absent: "\<not> has_usage_block (str_or md []) \<longrightarrow> parse_usage_from_markdown J md = JList []"
    by (simp add: parse_usage_from_markdown_def flip: re_search_usage_None_iff)
  have invalid: "re_search_usage (str_or md []) = Some g \<longrightarrow> J (strip g) = None \<longrightarrow>
      parse_usage_from_markdown J md = JList []"
    by (simp add: parse_usage_from_markdown_def)
  have found: "has_usage_block (str_or md []) \<longrightarrow>
      (\<exists>pre t body post.
         str_or md [] = pre @ t @ body @ fence @ post \<and> lower t = usage_tag \<and>
         re_search_usage (str_or md []) = Some (strip body))"
  proof
    assume "has_usage_block (str_or md [])"
    then obtain g where g: "re_search_usage (str_or md []) = Some g"
      using re_search_usage_None_iff[of "str_or md []"] by (cases "re_search_usage (str_or md [])") auto
    from re_search_usage_Some[OF g] g
    show "\<exists>pre t body post.
         str_or md [] = pre @ t @ body @ fence @ post \<and> lower t = usage_tag \<and>
         re_search_usage (str_or md []) = Some (strip body)"
      by blast
  qed
  have none: "parse_usage_from_markdown J None = JList []"
    by (simp add: parse_usage_from_markdown_def str_or_def)
  have empty: "parse_usage_from_markdown J (Some []) = JList []"
    by (simp add: parse_usage_from_markdown_def str_or_def)
  from absent invalid found none empty show ?thesis by blast
qed

theorem parse_usage_soft_fail_witness:
  "\<not> has_usage_block (str_or (Some ''Serve hot.'') []) \<and>
   parse_usage_from_markdown json_loads_sample (Some ''Serve hot.'') = JList [] \<and>
   has_usage_block (str_or (Some (''Done. ```USAGE_JSON'' @ [CHR 0x0A] @ ''{oops '' @ [CHR 0x0A] @ ''```'')) []) \<and>
   re_search_usage (str_or (Some (''Done. ```USAGE_JSON'' @ [CHR 0x0A] @ ''{oops '' @ [CHR 0x0A] @ ''```'')) [])
     = Some ''{oops'' \<and>
   json_loads_sample (strip ''{oops'') = None \<and>
   parse_usage_from_markdown json_loads_sample
     (Some (''Done. ```USAGE_JSON'' @ [CHR 0x0A] @ ''{oops '' @ [CHR 0x0A] @ ''```'')) = JList []"
  using parse_usage_soft_fail[of "Some ''Serve hot.''" json_loads_sample "''{oops''"]
    parse_usage_soft_fail[of
      "Some (''Done. ```USAGE_JSON'' @ [CHR 0x0A] @ ''{oops '' @ [CHR 0x0A] @ ''```'')"
      json_loads_sample "''{oops''"]
  by (simp add: has_usage_block_iff usage_eval text_defs json_loads_sample_def)

text \<open>
  Claim C10. When the contents of the block parse, the value of \<^verbatim>\<open>json.loads\<close> is
  returned as it is, whatever its shape: \<open>null\<close> or an object come back as such and are
  not lists of usage records. The result is the empty list exactly when there is no
  block, when the contents do not parse, or when they parse to the empty list itself.
\<close>

theorem parse_usage_no_shape_check:
  "(re_search_usage (str_or md []) = Some g \<longrightarrow> J (strip g) = Some v \<longrightarrow>
      parse_usage_from_markdown J md = v) \<and>
   (parse_usage_from_markdown J md = JList [] \<longleftrightarrow>
      \<not> has_usage_block (str_or md []) \<or>
      (\<exists>g. re_search_usage (str_or md []) = Some g \<and>
           (J (strip g) = None \<or> J (strip g) = Some (JList []))))"
  by (auto simp add: parse_usage_from_markdown_def split: option.splits
      simp flip: re_search_usage_None_iff)

theorem parse_usage_no_shape_check_witness:
  "re_search_usage (str_or (Some (''```usage_json'' @ [CHR 0x0A] @ ''null'' @ [CHR 0x0A] @ ''```'')) [])
     = Some ''null'' \<and>
   json_loads_sample (strip ''null'') = Some JNull \<and>
   parse_usage_from_markdown json_loads_sample
     (Some (''```usage_json'' @ [CHR 0x0A] @ ''null'' @ [CHR 0x0A] @ ''```'')) = JNull \<and>
   JNull \<noteq> JList [] \<and>
   parse_usage_from_markdown json_loads_sample
     (Some (''```usage_json {} ```'')) = JDict []"
  using parse_usage_no_shape_check[of
      "Some (''```usage_json'' @ [CHR 0x0A] @ ''null'' @ [CHR 0x0A] @ ''```'')" "''null''"
      json_loads_sample JNull]
    parse_usage_no_shape_check[of "Some (''```usage_json {} ```'')" "''{}''"
      json_loads_sample "JDict []"]
  by (simp add: usage_eval text_defs json_loads_sample_def)

section \<open>Usage applicator\<close>






















section \<open>Recipe generation and the history log\<close>



end
